theory Spec2Isabelle
  imports Complex_Main
begin

section \<open>JavaScript numbers\<close>

text \<open>
  The crop engine computes with JavaScript numbers. A number is modelled as a real
  (the finite doubles, idealised: no rounding error), or one of the three values that
  a division by zero produces and that never raise: \<open>Infinity\<close>, \<open>-Infinity\<close> and
  \<open>NaN\<close>. The two zeros of IEEE 754 are identified (a zero is \<open>+0\<close>). The value
  \<open>undefined\<close> of an unset variable behaves like \<open>NaN\<close> in arithmetic and in
  comparisons, and is modelled by it.
\<close>

datatype jsnum = Fin real | PInf | NInf | NaN

fun isFinite :: "jsnum \<Rightarrow> bool" where
  "isFinite (Fin a) = True"
| "isFinite PInf = False"
| "isFinite NInf = False"
| "isFinite NaN = False"

text \<open>The sign of a non-NaN number, used by multiplication and division.\<close>

fun jsign :: "jsnum \<Rightarrow> int" where
  "jsign (Fin a) = (if 0 < a then 1 else if a < 0 then -1 else 0)"
| "jsign PInf = 1"
| "jsign NInf = -1"
| "jsign NaN = 0"

definition inf_of_sign :: "int \<Rightarrow> jsnum" where
  "inf_of_sign s = (if 0 < s then PInf else if s < 0 then NInf else NaN)"

fun jneg :: "jsnum \<Rightarrow> jsnum" where
  "jneg (Fin a) = Fin (- a)"
| "jneg PInf = NInf"
| "jneg NInf = PInf"
| "jneg NaN = NaN"

fun jadd :: "jsnum \<Rightarrow> jsnum \<Rightarrow> jsnum" where
  "jadd (Fin a) (Fin b) = Fin (a + b)"
| "jadd NaN b = NaN"
| "jadd a NaN = NaN"
| "jadd PInf NInf = NaN"
| "jadd NInf PInf = NaN"
| "jadd PInf b = PInf"
| "jadd NInf b = NInf"
| "jadd a PInf = PInf"
| "jadd a NInf = NInf"

fun jmul :: "jsnum \<Rightarrow> jsnum \<Rightarrow> jsnum" where
  "jmul (Fin a) (Fin b) = Fin (a * b)"
| "jmul NaN b = NaN"
| "jmul a NaN = NaN"
| "jmul a b = inf_of_sign (jsign a * jsign b)"

text \<open>
  Division never raises: a finite number divided by zero is an infinity of its sign,
  and \<open>0 / 0\<close> is \<open>NaN\<close>.
\<close>

fun jdiv :: "jsnum \<Rightarrow> jsnum \<Rightarrow> jsnum" where
  "jdiv (Fin a) (Fin b) = (if b = 0 then inf_of_sign (jsign (Fin a)) else Fin (a / b))"
| "jdiv NaN b = NaN"
| "jdiv a NaN = NaN"
| "jdiv (Fin a) b = Fin 0"
| "jdiv a (Fin b) = inf_of_sign (jsign a * (if b < 0 then -1 else 1))"
| "jdiv a b = NaN"

fun jless :: "jsnum \<Rightarrow> jsnum \<Rightarrow> bool" where
  "jless (Fin a) (Fin b) = (a < b)"
| "jless NaN b = False"
| "jless a NaN = False"
| "jless a NInf = False"
| "jless PInf b = False"
| "jless a b = True"

fun jless_eq :: "jsnum \<Rightarrow> jsnum \<Rightarrow> bool" where
  "jless_eq (Fin a) (Fin b) = (a \<le> b)"
| "jless_eq NaN b = False"
| "jless_eq a NaN = False"
| "jless_eq NInf b = True"
| "jless_eq a PInf = True"
| "jless_eq a b = False"

instantiation jsnum :: "{plus, minus, times, inverse, ord}"
begin

definition plus_jsnum :: "jsnum \<Rightarrow> jsnum \<Rightarrow> jsnum" where
  "plus_jsnum a b = jadd a b"

definition minus_jsnum :: "jsnum \<Rightarrow> jsnum \<Rightarrow> jsnum" where
  "minus_jsnum a b = jadd a (jneg b)"

definition times_jsnum :: "jsnum \<Rightarrow> jsnum \<Rightarrow> jsnum" where
  "times_jsnum a b = jmul a b"

definition divide_jsnum :: "jsnum \<Rightarrow> jsnum \<Rightarrow> jsnum" where
  "divide_jsnum a b = jdiv a b"

definition inverse_jsnum :: "jsnum \<Rightarrow> jsnum" where
  "inverse_jsnum a = jdiv (Fin 1) a"

definition less_jsnum :: "jsnum \<Rightarrow> jsnum \<Rightarrow> bool" where
  "less_jsnum a b = jless a b"

definition less_eq_jsnum :: "jsnum \<Rightarrow> jsnum \<Rightarrow> bool" where
  "less_eq_jsnum a b = jless_eq a b"

instance ..

end

text \<open>\<open>Math.min\<close> and \<open>Math.max\<close>: \<open>NaN\<close> if an argument is \<open>NaN\<close>.\<close>

definition Math_min :: "jsnum \<Rightarrow> jsnum \<Rightarrow> jsnum" where
  "Math_min a b = (if a = NaN \<or> b = NaN then NaN else if a < b then a else b)"

definition Math_max :: "jsnum \<Rightarrow> jsnum \<Rightarrow> jsnum" where
  "Math_max a b = (if a = NaN \<or> b = NaN then NaN else if a < b then b else a)"

fun Math_floor :: "jsnum \<Rightarrow> jsnum" where
  "Math_floor (Fin a) = Fin (of_int \<lfloor>a\<rfloor>)"
| "Math_floor a = a"

text \<open>
  \<open>a || b\<close> on numbers: \<open>a\<close> unless it is falsy (zero or \<open>NaN\<close>).
\<close>

definition js_or :: "jsnum \<Rightarrow> jsnum \<Rightarrow> jsnum" where
  "js_or a b = (if a = NaN \<or> a = Fin 0 then b else a)"

text \<open>
  A style length is written as \<open>n + 'px'\<close> and read back with \<open>parseInt\<close>, which
  keeps the integer digits in front of the decimal point: the number truncated towards
  zero. The texts \<open>Infinitypx\<close> and \<open>NaNpx\<close> start with no digit and parse to
  \<open>NaN\<close>. (Numbers so large or so small that JavaScript prints them with an exponent
  are outside this model.) A dataset entry is read back with \<open>parseFloat\<close>, which
  returns the number that was written.
\<close>

fun parseInt :: "jsnum \<Rightarrow> jsnum" where
  "parseInt (Fin a) = Fin (if 0 \<le> a then of_int \<lfloor>a\<rfloor> else of_int \<lceil>a\<rceil>)"
| "parseInt a = NaN"

definition parseFloat :: "jsnum \<Rightarrow> jsnum" where
  "parseFloat a = a"

section \<open>Configuration service\<close>

datatype orientation = Portrait | Landscape

datatype js_error = NotInitialized | TypeError

record dims =
  dwidth :: jsnum
  dheight :: jsnum

text \<open>
  \<open>window.CONFIG\<close>: \<open>dimensions\<close> is \<open>null\<close> until the server's answer is stored,
  and then an object that has an entry for an orientation or not.
\<close>

record config =
  dimensions :: "(orientation \<Rightarrow> dims option) option"
  initialized :: bool

definition getDimensions :: "config \<Rightarrow> orientation \<Rightarrow> js_error + dims option" where
  "getDimensions c ori =
     (if \<not> initialized c then Inl NotInitialized
      else case dimensions c of
             None \<Rightarrow> Inl TypeError
           | Some d \<Rightarrow> Inr (d ori))"

definition getAspectRatio :: "config \<Rightarrow> orientation \<Rightarrow> js_error + jsnum" where
  "getAspectRatio c ori =
     (case getDimensions c ori of
        Inl e \<Rightarrow> Inl e
      | Inr None \<Rightarrow> Inl TypeError
      | Inr (Some ds) \<Rightarrow>
          Inr (if ori = Portrait then dwidth ds / dheight ds else dwidth ds / dheight ds))"

section \<open>Application state\<close>

text \<open>
  A crop object \<open>{x, y, width, height}\<close>, the image bounds that \<open>getImageBounds\<close>
  returns, and the local variables of the resize solver.
\<close>

record crop =
  x :: jsnum
  y :: jsnum
  width :: jsnum
  height :: jsnum

record imgBounds =
  bleft :: jsnum
  btop :: jsnum
  bwidth :: jsnum
  bheight :: jsnum

record newrect =
  newLeft :: jsnum
  newTop :: jsnum
  newWidth :: jsnum
  newHeight :: jsnum

datatype handle = TopLeft | TopRight | BottomLeft | BottomRight

text \<open>
  The callbacks that the code hands to \<open>requestAnimationFrame\<close> and \<open>setTimeout\<close>.
\<close>

datatype task =
    RafInitCrop orientation
  | RetryInitCrop jsnum
  | RafUpdateStage
  | RafShowCropTools
  | RafShowEditor
  | OverlayAndHandlers

record request =
  req_identifier :: string
  req_orientation :: orientation
  req_crop :: crop

text \<open>
  Everything the crop engine reads and writes:
  \<^item> \<open>window.APP_STATE\<close>: \<open>app_initialized\<close>, \<open>syncing\<close>, \<open>currentImage\<close> (its
    identifier, or \<open>None\<close> for \<open>null\<close>), \<open>currentStage\<close>, \<open>portraitCrop\<close>,
    \<open>landscapeCrop\<close>;
  \<^item> \<open>window.CONFIG\<close>: \<open>cfg\<close>;
  \<^item> the image element: \<open>complete\<close>, \<open>naturalWidth\<close>, \<open>naturalHeight\<close>,
    \<open>offsetWidth\<close>, \<open>offsetHeight\<close>, and its bounding rectangle relative to the
    container's (\<open>rectLeft\<close> is \<open>imgRect.left - containerRect.left\<close>);
  \<^item> the container's dataset: \<open>imgLeft\<close>, \<open>imgTop\<close>, \<open>imgWidth\<close>, \<open>imgHeight\<close>;
  \<^item> the crop rectangle's style, as the numbers of pixels it holds: \<open>styleLeft\<close>,
    \<open>styleTop\<close>, \<open>styleWidth\<close>, \<open>styleHeight\<close>;
  \<^item> the variables of one \<open>setupCropHandlers\<close> closure: \<open>isDragging\<close>,
    \<open>isResizing\<close>, \<open>currentHandle\<close>, \<open>startX\<close>, \<open>startY\<close>, \<open>startLeft\<close>,
    \<open>startTop\<close>, \<open>startWidth\<close>, \<open>startHeight\<close>;
  \<^item> the callbacks waiting to run (\<open>tasks\<close>) and the crop requests sent to the
    server (\<open>requests\<close>).
\<close>

record world =
  app_initialized :: bool
  syncing :: bool
  currentImage :: "string option"
  currentStage :: nat
  portraitCrop :: crop
  landscapeCrop :: crop
  cfg :: config
  complete :: bool
  naturalWidth :: nat
  naturalHeight :: nat
  offsetWidth :: nat
  offsetHeight :: nat
  rectLeft :: jsnum
  rectTop :: jsnum
  rectWidth :: jsnum
  rectHeight :: jsnum
  imgLeft :: jsnum
  imgTop :: jsnum
  imgWidth :: jsnum
  imgHeight :: jsnum
  styleLeft :: jsnum
  styleTop :: jsnum
  styleWidth :: jsnum
  styleHeight :: jsnum
  isDragging :: bool
  isResizing :: bool
  currentHandle :: "handle option"
  startX :: jsnum
  startY :: jsnum
  startLeft :: jsnum
  startTop :: jsnum
  startWidth :: jsnum
  startHeight :: jsnum
  tasks :: "task list"
  requests :: "request list"

text \<open>An integer property of the DOM, as a number.\<close>

definition num :: "nat \<Rightarrow> jsnum" where
  "num n = Fin (real n)"

text \<open>
  An assignment \<open>el.style.left = n + 'px'\<close> goes through the browser, which reads
  the text as a length. Text that is no length (\<open>NaNpx\<close>, \<open>Infinitypx\<close>) is
  ignored, and so is a negative length for \<open>width\<close> or \<open>height\<close>: the property
  keeps the value it had.
\<close>

definition set_position :: "jsnum \<Rightarrow> jsnum \<Rightarrow> jsnum" where
  "set_position old n = (if isFinite n then n else old)"

definition set_size :: "jsnum \<Rightarrow> jsnum \<Rightarrow> jsnum" where
  "set_size old n = (if isFinite n \<and> Fin 0 \<le> n then n else old)"

section \<open>Crop engine\<close>

subsection \<open>initCropRectangle\<close>

record croprect =
  cropX :: jsnum
  cropY :: jsnum
  cropWidth :: jsnum
  cropHeight :: jsnum

text \<open>
  The branch of \<open>initCropRectangle\<close> for a saved crop: the saved crop is scaled by
  display size over natural size, cut to the image size and pushed back inside the image.
\<close>

definition savedCropRect ::
  "crop \<Rightarrow> jsnum \<Rightarrow> jsnum \<Rightarrow> jsnum \<Rightarrow> jsnum \<Rightarrow> nat \<Rightarrow> nat \<Rightarrow> croprect" where
  "savedCropRect savedCrop iLeft iTop iWidth iHeight nWidth nHeight =
     (let scaleX = iWidth / num nWidth;
          scaleY = iHeight / num nHeight;
          cropWidth0 = width savedCrop * scaleX;
          cropHeight0 = height savedCrop * scaleY;
          cropX0 = iLeft + (x savedCrop * scaleX);
          cropY0 = iTop + (y savedCrop * scaleY);
          cropWidth1 = Math_min cropWidth0 iWidth;
          cropHeight1 = Math_min cropHeight0 iHeight;
          cropX1 = (if iLeft + iWidth < cropX0 + cropWidth1
                    then iLeft + iWidth - cropWidth1 else cropX0);
          cropY1 = (if iTop + iHeight < cropY0 + cropHeight1
                    then iTop + iHeight - cropHeight1 else cropY0)
      in \<lparr>cropX = cropX1, cropY = cropY1, cropWidth = cropWidth1, cropHeight = cropHeight1\<rparr>)"

text \<open>The other branch: the largest centred rectangle of the aspect ratio.\<close>

definition defaultCropRect ::
  "jsnum \<Rightarrow> jsnum \<Rightarrow> jsnum \<Rightarrow> jsnum \<Rightarrow> jsnum \<Rightarrow> croprect" where
  "defaultCropRect aspectRatio iLeft iTop iWidth iHeight =
     (let cropHeight0 = (if aspectRatio < iWidth / iHeight then iHeight
                         else iWidth / aspectRatio);
          cropWidth0 = (if aspectRatio < iWidth / iHeight then iHeight * aspectRatio
                        else iWidth);
          cropWidth1 = Math_min cropWidth0 iWidth;
          cropHeight1 = Math_min cropHeight0 iHeight
      in \<lparr>cropX = iLeft + (iWidth - cropWidth1) / Fin 2,
          cropY = iTop + (iHeight - cropHeight1) / Fin 2,
          cropWidth = cropWidth1, cropHeight = cropHeight1\<rparr>)"

definition initCropRectangle :: "jsnum \<Rightarrow> world \<Rightarrow> world" where
  "initCropRectangle aspectRatio w =
     (if \<not> complete w \<or> naturalWidth w = 0
      then w\<lparr>tasks := tasks w @ [RetryInitCrop aspectRatio]\<rparr>
      else
        let savedCrop = (if currentStage w = 1 then portraitCrop w else landscapeCrop w);
            c = (if Fin 0 < width savedCrop \<and> Fin 0 < height savedCrop
                 then savedCropRect savedCrop (rectLeft w) (rectTop w) (rectWidth w)
                        (rectHeight w) (naturalWidth w) (naturalHeight w)
                 else defaultCropRect aspectRatio (rectLeft w) (rectTop w) (rectWidth w)
                        (rectHeight w));
            stored = \<lparr>x = cropX c - rectLeft w, y = cropY c - rectTop w,
                       width = cropWidth c, height = cropHeight c\<rparr>;
            w1 = w\<lparr>styleLeft := set_position (styleLeft w) (cropX c),
                    styleTop := set_position (styleTop w) (cropY c),
                    styleWidth := set_size (styleWidth w) (cropWidth c),
                    styleHeight := set_size (styleHeight w) (cropHeight c)\<rparr>;
            w2 = (if currentStage w = 1 then w1\<lparr>portraitCrop := stored\<rparr>
                  else if currentStage w = 2 then w1\<lparr>landscapeCrop := stored\<rparr>
                  else w1)
        in w2\<lparr>tasks := tasks w2 @ [OverlayAndHandlers]\<rparr>)"

subsection \<open>Gesture handlers of setupCropHandlers\<close>

definition getImageBounds :: "world \<Rightarrow> imgBounds" where
  "getImageBounds w =
     \<lparr>bleft = js_or (parseFloat (imgLeft w)) (Fin 0),
      btop = js_or (parseFloat (imgTop w)) (Fin 0),
      bwidth = js_or (parseFloat (imgWidth w)) (num (offsetWidth w)),
      bheight = js_or (parseFloat (imgHeight w)) (num (offsetHeight w))\<rparr>"

text \<open>
  \<open>mousedown\<close> and \<open>touchstart\<close> on the rectangle itself start a move; on a handle
  they start a resize. Neither looks at the flag of the other gesture.
\<close>

definition rectangle_down :: "jsnum \<Rightarrow> jsnum \<Rightarrow> world \<Rightarrow> world" where
  "rectangle_down clientX clientY w =
     w\<lparr>isDragging := True, startX := clientX, startY := clientY,
       startLeft := js_or (parseInt (styleLeft w)) (Fin 0),
       startTop := js_or (parseInt (styleTop w)) (Fin 0)\<rparr>"

definition handle_down :: "handle \<Rightarrow> jsnum \<Rightarrow> jsnum \<Rightarrow> world \<Rightarrow> world" where
  "handle_down h clientX clientY w =
     w\<lparr>isResizing := True, currentHandle := Some h, startX := clientX, startY := clientY,
       startLeft := js_or (parseInt (styleLeft w)) (Fin 0),
       startTop := js_or (parseInt (styleTop w)) (Fin 0),
       startWidth := js_or (parseInt (styleWidth w)) (Fin 0),
       startHeight := js_or (parseInt (styleHeight w)) (Fin 0)\<rparr>"

text \<open>The size and position that a handle asks for, before the image edges are looked at.\<close>

definition resizeFromHandle ::
  "handle \<Rightarrow> jsnum \<Rightarrow> jsnum \<Rightarrow> jsnum \<Rightarrow> jsnum \<Rightarrow> jsnum \<Rightarrow> jsnum \<Rightarrow> newrect" where
  "resizeFromHandle h aspectRatio sLeft sTop sWidth sHeight dx =
     (case h of
        BottomRight \<Rightarrow>
          (let nw = Math_max (Fin 50) (sWidth + dx); nh = nw / aspectRatio
           in \<lparr>newLeft = sLeft, newTop = sTop, newWidth = nw, newHeight = nh\<rparr>)
      | TopRight \<Rightarrow>
          (let nw = Math_max (Fin 50) (sWidth + dx); nh = nw / aspectRatio
           in \<lparr>newLeft = sLeft, newTop = sTop + sHeight - nh, newWidth = nw, newHeight = nh\<rparr>)
      | BottomLeft \<Rightarrow>
          (let nw = Math_max (Fin 50) (sWidth - dx); nh = nw / aspectRatio
           in \<lparr>newLeft = sLeft + sWidth - nw, newTop = sTop, newWidth = nw, newHeight = nh\<rparr>)
      | TopLeft \<Rightarrow>
          (let nw = Math_max (Fin 50) (sWidth - dx); nh = nw / aspectRatio
           in \<lparr>newLeft = sLeft + sWidth - nw, newTop = sTop + sHeight - nh,
               newWidth = nw, newHeight = nh\<rparr>))"

text \<open>The four edge checks, in the order of the source.\<close>

definition clampLeft :: "imgBounds \<Rightarrow> jsnum \<Rightarrow> newrect \<Rightarrow> newrect" where
  "clampLeft b aspectRatio n =
     (if newLeft n < bleft b
      then (let diff = bleft b - newLeft n; nw = newWidth n - diff
            in n\<lparr>newLeft := bleft b, newWidth := nw, newHeight := nw / aspectRatio\<rparr>)
      else n)"

definition clampTop :: "imgBounds \<Rightarrow> jsnum \<Rightarrow> newrect \<Rightarrow> newrect" where
  "clampTop b aspectRatio n =
     (if newTop n < btop b
      then (let diff = btop b - newTop n; nh = newHeight n - diff
            in n\<lparr>newTop := btop b, newHeight := nh, newWidth := nh * aspectRatio\<rparr>)
      else n)"

definition clampRight :: "imgBounds \<Rightarrow> jsnum \<Rightarrow> newrect \<Rightarrow> newrect" where
  "clampRight b aspectRatio n =
     (if bleft b + bwidth b < newLeft n + newWidth n
      then (let nw = bleft b + bwidth b - newLeft n
            in n\<lparr>newWidth := nw, newHeight := nw / aspectRatio\<rparr>)
      else n)"

definition clampBottom :: "imgBounds \<Rightarrow> jsnum \<Rightarrow> newrect \<Rightarrow> newrect" where
  "clampBottom b aspectRatio n =
     (if btop b + bheight b < newTop n + newHeight n
      then (let nh = btop b + bheight b - newTop n
            in n\<lparr>newHeight := nh, newWidth := nh * aspectRatio\<rparr>)
      else n)"

definition resizeRect ::
  "handle \<Rightarrow> jsnum \<Rightarrow> imgBounds \<Rightarrow> jsnum \<Rightarrow> jsnum \<Rightarrow> jsnum \<Rightarrow> jsnum \<Rightarrow> jsnum \<Rightarrow> newrect" where
  "resizeRect h aspectRatio b sLeft sTop sWidth sHeight dx =
     clampBottom b aspectRatio (clampRight b aspectRatio (clampTop b aspectRatio
       (clampLeft b aspectRatio (resizeFromHandle h aspectRatio sLeft sTop sWidth sHeight dx))))"

text \<open>
  \<open>handleMoveResize\<close>, run on every \<open>mousemove\<close> (and on a \<open>touchmove\<close> during a
  gesture). A move is served first; a resize only when no move is in progress.
  \<open>getAspectRatio\<close> may throw, before anything is written.
\<close>

definition handleMoveResize :: "jsnum \<Rightarrow> jsnum \<Rightarrow> world \<Rightarrow> js_error + world" where
  "handleMoveResize clientX clientY w =
     (let b = getImageBounds w in
      if isDragging w then
        (let dx = clientX - startX w;
             dy = clientY - startY w;
             nl = Math_max (bleft b)
                    (Math_min (startLeft w + dx) (bleft b + bwidth b - parseInt (styleWidth w)));
             nt = Math_max (btop b)
                    (Math_min (startTop w + dy) (btop b + bheight b - parseInt (styleHeight w)))
         in Inr (w\<lparr>styleLeft := set_position (styleLeft w) nl,
                   styleTop := set_position (styleTop w) nt\<rparr>))
      else if isResizing w then
        (case currentHandle w of
           None \<Rightarrow> Inr w
         | Some h \<Rightarrow>
             (let dx = clientX - startX w;
                  ori = (if currentStage w = 1 then Portrait else Landscape)
              in case getAspectRatio (cfg w) ori of
                   Inl e \<Rightarrow> Inl e
                 | Inr aspectRatio \<Rightarrow>
                     (let n = resizeRect h aspectRatio b (startLeft w) (startTop w)
                                (startWidth w) (startHeight w) dx
                      in Inr (w\<lparr>styleWidth := set_size (styleWidth w) (newWidth n),
                                styleHeight := set_size (styleHeight w) (newHeight n),
                                styleLeft := set_position (styleLeft w) (newLeft n),
                                styleTop := set_position (styleTop w) (newTop n)\<rparr>))))
      else Inr w)"

subsection \<open>updateCropValues and the release handlers\<close>

definition updateCropValues :: "world \<Rightarrow> world" where
  "updateCropValues w =
     (let iLeft = js_or (parseFloat (imgLeft w)) (Fin 0);
          iTop = js_or (parseFloat (imgTop w)) (Fin 0);
          stored = \<lparr>x = js_or (parseInt (styleLeft w)) (Fin 0) - iLeft,
                     y = js_or (parseInt (styleTop w)) (Fin 0) - iTop,
                     width = js_or (parseInt (styleWidth w)) (Fin 0),
                     height = js_or (parseInt (styleHeight w)) (Fin 0)\<rparr>
      in if currentStage w = 1 then w\<lparr>portraitCrop := stored\<rparr>
         else if currentStage w = 2 then w\<lparr>landscapeCrop := stored\<rparr>
         else w)"

text \<open>\<open>a !== b\<close> on numbers: \<open>NaN\<close> differs from everything, itself included.\<close>

definition js_neq :: "jsnum \<Rightarrow> jsnum \<Rightarrow> bool" where
  "js_neq a b = (a = NaN \<or> b = NaN \<or> a \<noteq> b)"

definition mouseup :: "world \<Rightarrow> world" where
  "mouseup w =
     (if isDragging w \<or> isResizing w then
        (let w1 = w\<lparr>isDragging := False, isResizing := False, currentHandle := None\<rparr>;
             b = getImageBounds w1;
             cLeft = js_or (parseInt (styleLeft w1)) (Fin 0);
             cTop = js_or (parseInt (styleTop w1)) (Fin 0);
             cWidth = js_or (parseInt (styleWidth w1)) (Fin 0);
             cHeight = js_or (parseInt (styleHeight w1)) (Fin 0);
             nl = Math_max (bleft b) (Math_min cLeft (bleft b + bwidth b - cWidth));
             nt = Math_max (btop b) (Math_min cTop (btop b + bheight b - cHeight));
             w2 = (if js_neq nl cLeft \<or> js_neq nt cTop
                   then w1\<lparr>styleLeft := set_position (styleLeft w1) nl,
                           styleTop := set_position (styleTop w1) nt\<rparr>
                   else w1)
         in updateCropValues w2)
      else w)"

definition touchend :: "world \<Rightarrow> world" where
  "touchend w =
     (if isDragging w \<or> isResizing w
      then updateCropValues (w\<lparr>isDragging := False, isResizing := False, currentHandle := None\<rparr>)
      else w)"

subsection \<open>performCrop\<close>

text \<open>The conversion of a crop to the pixels of the original image.\<close>

definition scaledCrop :: "nat \<Rightarrow> nat \<Rightarrow> jsnum \<Rightarrow> jsnum \<Rightarrow> crop \<Rightarrow> crop" where
  "scaledCrop nWidth nHeight displayWidth displayHeight c =
     (let scaleX = num nWidth / displayWidth;
          scaleY = num nHeight / displayHeight;
          sx = Math_floor (x c * scaleX);
          sy = Math_floor (y c * scaleY);
          sw = Math_floor (width c * scaleX);
          sh = Math_floor (height c * scaleY)
      in \<lparr>x = sx, y = sy,
          width = Math_min sw (num nWidth - sx),
          height = Math_min sh (num nHeight - sy)\<rparr>)"

text \<open>
  \<open>performCrop\<close> returns at once without a current image; otherwise it sends the
  scaled crop to the server (the answer only touches the preview, which is not
  modelled). The stored crops are left as they are.
\<close>

definition performCrop :: "orientation \<Rightarrow> world \<Rightarrow> world" where
  "performCrop ori w =
     (case currentImage w of
        None \<Rightarrow> w
      | Some ident \<Rightarrow>
          (let c = (if ori = Portrait then portraitCrop w else landscapeCrop w);
               displayWidth = js_or (parseFloat (imgWidth w)) (num (offsetWidth w));
               displayHeight = js_or (parseFloat (imgHeight w)) (num (offsetHeight w))
           in w\<lparr>requests := requests w @
                  [\<lparr>req_identifier = ident, req_orientation = ori,
                    req_crop = scaledCrop (naturalWidth w) (naturalHeight w)
                                 displayWidth displayHeight c\<rparr>]\<rparr>))"

section \<open>Stage machine\<close>

text \<open>
  An exception that no handler catches ends the running callback; the state stays as
  it was when it was thrown.
\<close>

definition uncaught :: "world \<Rightarrow> js_error + world \<Rightarrow> world" where
  "uncaught w r = (case r of Inl e \<Rightarrow> w | Inr w' \<Rightarrow> w')"

text \<open>Reading \<open>dims.width\<close> and \<open>dims.height\<close> for a label.\<close>

definition readDims :: "config \<Rightarrow> orientation \<Rightarrow> js_error + dims" where
  "readDims c ori =
     (case getDimensions c ori of
        Inl e \<Rightarrow> Inl e
      | Inr None \<Rightarrow> Inl TypeError
      | Inr (Some ds) \<Rightarrow> Inr ds)"

text \<open>
  The last block of \<open>updateStage\<close>, which shows and hides the views; \<open>stage\<close> is the
  stage read when \<open>updateStage\<close> was entered.
\<close>

definition updateStage_views :: "nat \<Rightarrow> world \<Rightarrow> world" where
  "updateStage_views stage w =
     (if \<not> syncing w \<and> currentImage w \<noteq> None
      then (if stage = 3 then w\<lparr>tasks := tasks w @ [RafShowEditor]\<rparr>
            else w\<lparr>tasks := tasks w @ [RafShowCropTools, RafShowEditor]\<rparr>)
      else w)"

text \<open>
  \<open>updateStage\<close>. The elements of the page that it looks up, the two previews among
  them, exist. \<open>Inl\<close> is an exception of \<open>getDimensions\<close>; it is thrown before
  \<open>updateStage\<close> has written anything that is modelled.
\<close>

definition updateStage :: "world \<Rightarrow> js_error + world" where
  "updateStage w =
     (if \<not> app_initialized w \<or> syncing w then Inr w
      else if currentStage w = 1 then
        (case readDims (cfg w) Portrait of
           Inl e \<Rightarrow> Inl e
         | Inr _ \<Rightarrow> Inr (updateStage_views 1 (w\<lparr>tasks := tasks w @ [RafInitCrop Portrait]\<rparr>)))
      else if currentStage w = 2 then
        (case readDims (cfg w) Landscape of
           Inl e \<Rightarrow> Inl e
         | Inr _ \<Rightarrow> Inr (updateStage_views 2 (w\<lparr>tasks := tasks w @ [RafInitCrop Landscape]\<rparr>)))
      else if currentStage w = 3 then
        (let hasPortrait = Fin 0 < width (portraitCrop w);
             hasLandscape = Fin 0 < width (landscapeCrop w)
         in case readDims (cfg w) Portrait of
              Inl e \<Rightarrow> Inl e
            | Inr _ \<Rightarrow>
                (case readDims (cfg w) Landscape of
                   Inl e \<Rightarrow> Inl e
                 | Inr _ \<Rightarrow>
                     if \<not> hasPortrait \<and> \<not> hasLandscape
                     then Inr (w\<lparr>currentStage := 1, tasks := tasks w @ [RafUpdateStage]\<rparr>)
                     else Inr (updateStage_views 3 w)))
      else Inr (updateStage_views (currentStage w) w))"

subsection \<open>The buttons\<close>

definition zeroCrop :: crop where
  "zeroCrop = \<lparr>x = Fin 0, y = Fin 0, width = Fin 0, height = Fin 0\<rparr>"

definition btnCrop_click :: "world \<Rightarrow> world" where
  "btnCrop_click w =
     (if \<not> syncing w then
        (let w1 = (if currentStage w = 1 then (performCrop Portrait w)\<lparr>currentStage := 2\<rparr>
                   else if currentStage w = 2 then (performCrop Landscape w)\<lparr>currentStage := 3\<rparr>
                   else w)
         in uncaught w1 (updateStage w1))
      else w)"

definition btnSkip_click :: "world \<Rightarrow> world" where
  "btnSkip_click w =
     (if \<not> syncing w then
        (let w1 = (if currentStage w = 1 then w\<lparr>portraitCrop := zeroCrop, currentStage := 2\<rparr>
                   else if currentStage w = 2 then w\<lparr>landscapeCrop := zeroCrop, currentStage := 3\<rparr>
                   else w)
         in uncaught w1 (updateStage w1))
      else w)"

definition btnBack_click :: "world \<Rightarrow> world" where
  "btnBack_click w =
     (if \<not> syncing w then
        (let w1 = (if currentStage w = 2 then w\<lparr>currentStage := 1\<rparr>
                   else if currentStage w = 3 then w\<lparr>currentStage := 2\<rparr>
                   else w)
         in uncaught w1 (updateStage w1))
      else w)"

subsection \<open>Running the waiting callbacks\<close>

text \<open>
  One callback. The callbacks that only show or hide elements, draw the overlay or
  install the handlers change nothing that is modelled.
\<close>

definition exec_task :: "task \<Rightarrow> world \<Rightarrow> world" where
  "exec_task t w =
     (case t of
        RafInitCrop ori \<Rightarrow>
          (if \<not> syncing w
           then (case getAspectRatio (cfg w) ori of
                   Inl e \<Rightarrow> w
                 | Inr aspectRatio \<Rightarrow> initCropRectangle aspectRatio w)
           else w)
      | RetryInitCrop aspectRatio \<Rightarrow> initCropRectangle aspectRatio w
      | RafUpdateStage \<Rightarrow> (if \<not> syncing w then uncaught w (updateStage w) else w)
      | RafShowCropTools \<Rightarrow> w
      | RafShowEditor \<Rightarrow> w
      | OverlayAndHandlers \<Rightarrow> w)"

text \<open>
  The event loop runs the waiting callbacks in the order they were handed over, until
  none waits. It may never get there (\<open>initCropRectangle\<close> asks again as long as the
  image is not loaded), so it runs on fuel: \<open>None\<close> is "still running". The result is
  the callbacks that ran, in order, and the state reached.
\<close>

fun drain :: "nat \<Rightarrow> world \<Rightarrow> (task list \<times> world) option" where
  "drain 0 w = (if tasks w = [] then Some ([], w) else None)"
| "drain (Suc n) w =
     (case tasks w of
        [] \<Rightarrow> Some ([], w)
      | t # ts \<Rightarrow>
          (case drain n (exec_task t (w\<lparr>tasks := ts\<rparr>)) of
             None \<Rightarrow> None
           | Some (tr, w') \<Rightarrow> Some (t # tr, w')))"

subsection \<open>Pointer events\<close>

datatype event =
    MouseDownRectangle jsnum jsnum
  | TouchStartRectangle jsnum jsnum
  | MouseDownHandle handle jsnum jsnum
  | TouchStartHandle handle jsnum jsnum
  | MouseMove jsnum jsnum
  | TouchMove jsnum jsnum
  | MouseUp
  | TouchEnd

definition dispatch :: "event \<Rightarrow> world \<Rightarrow> world" where
  "dispatch e w =
     (case e of
        MouseDownRectangle cx cy \<Rightarrow> rectangle_down cx cy w
      | TouchStartRectangle cx cy \<Rightarrow> rectangle_down cx cy w
      | MouseDownHandle h cx cy \<Rightarrow> handle_down h cx cy w
      | TouchStartHandle h cx cy \<Rightarrow> handle_down h cx cy w
      | MouseMove cx cy \<Rightarrow> uncaught w (handleMoveResize cx cy w)
      | TouchMove cx cy \<Rightarrow>
          (if isDragging w \<or> isResizing w then uncaught w (handleMoveResize cx cy w) else w)
      | MouseUp \<Rightarrow> mouseup w
      | TouchEnd \<Rightarrow> touchend w)"

fun dispatch_all :: "event list \<Rightarrow> world \<Rightarrow> world" where
  "dispatch_all [] w = w"
| "dispatch_all (e # es) w = dispatch_all es (dispatch e w)"

subsection \<open>Sequences of pointer events\<close>

text \<open>
  What a sequence of events says by itself, read from left to right: whether the
  rectangle has been pressed since the last release, and whether a handle has.
  \<open>pressed\<close> is the answer for the events before the sequence.
\<close>

fun rectangle_pressed :: "bool \<Rightarrow> event list \<Rightarrow> bool" where
  "rectangle_pressed pressed [] = pressed"
| "rectangle_pressed pressed (MouseDownRectangle cx cy # es) = rectangle_pressed True es"
| "rectangle_pressed pressed (TouchStartRectangle cx cy # es) = rectangle_pressed True es"
| "rectangle_pressed pressed (MouseUp # es) = rectangle_pressed False es"
| "rectangle_pressed pressed (TouchEnd # es) = rectangle_pressed False es"
| "rectangle_pressed pressed (e # es) = rectangle_pressed pressed es"

fun handle_pressed :: "bool \<Rightarrow> event list \<Rightarrow> bool" where
  "handle_pressed pressed [] = pressed"
| "handle_pressed pressed (MouseDownHandle h cx cy # es) = handle_pressed True es"
| "handle_pressed pressed (TouchStartHandle h cx cy # es) = handle_pressed True es"
| "handle_pressed pressed (MouseUp # es) = handle_pressed False es"
| "handle_pressed pressed (TouchEnd # es) = handle_pressed False es"
| "handle_pressed pressed (e # es) = handle_pressed pressed es"

section \<open>An editing session\<close>

text \<open>
  The configuration of the display: portrait 1080 x 1920, landscape 1920 x 1080.
\<close>

definition meural :: config where
  "meural =
     \<lparr>dimensions = Some (\<lambda>ori. Some (case ori of
          Portrait \<Rightarrow> \<lparr>dwidth = Fin 1080, dheight = Fin 1920\<rparr>
        | Landscape \<Rightarrow> \<lparr>dwidth = Fin 1920, dheight = Fin 1080\<rparr>)),
      initialized = True\<rparr>"

text \<open>
  A photo of 3000 x 4000 pixels, shown at 600 x 800 with its corner at (20, 20) of the
  container, in the Portrait stage, as \<open>initCropRectangle\<close> leaves it: the default
  portrait rectangle of 450 x 800 is centred on the image, and no gesture is in progress.
\<close>

definition editor :: world where
  "editor =
     \<lparr>app_initialized = True, syncing = False, currentImage = Some ''photo.jpg'',
      currentStage = 1,
      portraitCrop = \<lparr>x = Fin 75, y = Fin 0, width = Fin 450, height = Fin 800\<rparr>,
      landscapeCrop = zeroCrop,
      cfg = meural,
      complete = True, naturalWidth = 3000, naturalHeight = 4000,
      offsetWidth = 600, offsetHeight = 800,
      rectLeft = Fin 20, rectTop = Fin 20, rectWidth = Fin 600, rectHeight = Fin 800,
      imgLeft = Fin 20, imgTop = Fin 20, imgWidth = Fin 600, imgHeight = Fin 800,
      styleLeft = Fin 95, styleTop = Fin 20, styleWidth = Fin 450, styleHeight = Fin 800,
      isDragging = False, isResizing = False, currentHandle = None,
      startX = NaN, startY = NaN, startLeft = NaN, startTop = NaN,
      startWidth = NaN, startHeight = NaN,
      tasks = [], requests = []\<rparr>"

text \<open>
  The session before that: the image has just been selected and no crop is stored
  (lemma \<open>enter_portrait\<close>).
\<close>

definition editor_fresh :: world where
  "editor_fresh = editor\<lparr>portraitCrop := zeroCrop\<rparr>"

text \<open>
  The same session in the Landscape stage, as the Crop button and the callbacks it
  starts leave it (lemma \<open>advance_editor\<close>): the default landscape rectangle is
  600 x 337.5.
\<close>

definition editor_landscape :: world where
  "editor_landscape =
     editor\<lparr>currentStage := 2,
       landscapeCrop := \<lparr>x = Fin 0, y = Fin (925 / 4), width = Fin 600, height = Fin (675 / 2)\<rparr>,
       styleLeft := Fin 20, styleTop := Fin (1005 / 4), styleWidth := Fin 600,
       styleHeight := Fin (675 / 2),
       requests := [\<lparr>req_identifier = ''photo.jpg'', req_orientation = Portrait,
                     req_crop = \<lparr>x = Fin 375, y = Fin 0, width = Fin 2250, height = Fin 4000\<rparr>\<rparr>]\<rparr>"

text \<open>
  Back in the Portrait stage, as the Back button and its callbacks leave the session
  (lemma \<open>back_editor\<close>).
\<close>

definition editor_back :: world where
  "editor_back =
     editor_landscape\<lparr>currentStage := 1,
       portraitCrop := \<lparr>x = Fin 15, y = Fin 0, width = Fin 90, height = Fin 160\<rparr>,
       styleLeft := Fin 35, styleTop := Fin 20, styleWidth := Fin 90, styleHeight := Fin 160\<rparr>"

text \<open>The Review stage with no crop for either orientation.\<close>

definition editor_review :: world where
  "editor_review = editor\<lparr>currentStage := 3, portraitCrop := zeroCrop\<rparr>"

text \<open>
  The image has just been selected and a crop stored for it, a square of 1000 x 1000
  pixels of the image, has come from the server.
\<close>

definition editor_saved :: world where
  "editor_saved =
     editor\<lparr>portraitCrop := \<lparr>x = Fin 500, y = Fin 500, width = Fin 1000, height = Fin 1000\<rparr>\<rparr>"

text \<open>
  The Portrait stage as \<open>updateStage\<close> and its callbacks set it up from there
  (lemma \<open>enter_saved_square\<close>): the rectangle on display is a square of 200 x 200
  inside the image. Then the square is dragged by (10, 10).
\<close>

definition square_start :: world where
  "square_start =
     editor\<lparr>portraitCrop := \<lparr>x = Fin 100, y = Fin 100, width = Fin 200, height = Fin 200\<rparr>,
       styleLeft := Fin 120, styleTop := Fin 120, styleWidth := Fin 200, styleHeight := Fin 200\<rparr>"


text \<open>
  A rectangle of 90 x 160 whose right edge is 10 pixels from the right edge of the
  image; its top right handle is pulled 30 pixels to the right.
\<close>

definition edge_start :: world where
  "edge_start =
     editor\<lparr>styleLeft := Fin 520, styleTop := Fin 100, styleWidth := Fin 90, styleHeight := Fin 160\<rparr>"

definition edge_pull :: world where
  "edge_pull =
     dispatch_all [MouseDownHandle TopRight (Fin 610) (Fin 100), MouseMove (Fin 640) (Fin 100)]
       edge_start"


text \<open>A press on the rectangle, and a press on a handle before any release.\<close>

definition two_starts :: world where
  "two_starts =
     dispatch_all [MouseDownRectangle (Fin 300) (Fin 400),
                   MouseDownHandle BottomRight (Fin 545) (Fin 820)] editor"

text \<open>
  A move, ended by its release, and then a resize in progress, started by presses on
  two handles.
\<close>

definition move_then_resize :: "event list" where
  "move_then_resize =
     [MouseDownRectangle (Fin 300) (Fin 400), MouseMove (Fin 310) (Fin 400), MouseUp,
      TouchStartHandle BottomRight (Fin 545) (Fin 820), TouchStartHandle TopLeft (Fin 95) (Fin 20),
      TouchMove (Fin 500) (Fin 820)]"

text \<open>Finite image bounds and finite solver variables.\<close>

definition finb :: "real \<Rightarrow> real \<Rightarrow> real \<Rightarrow> real \<Rightarrow> imgBounds" where
  "finb L T W H = \<lparr>bleft = Fin L, btop = Fin T, bwidth = Fin W, bheight = Fin H\<rparr>"


section \<open>Arithmetic on finite numbers\<close>

lemma Fin_arith [simp]:
  "Fin a + Fin b = Fin (a + b)"
  "Fin a - Fin b = Fin (a - b)"
  "Fin a * Fin b = Fin (a * b)"
  "b \<noteq> 0 \<Longrightarrow> Fin a / Fin b = Fin (a / b)"
  "(Fin a < Fin b) = (a < b)"
  "(Fin a \<le> Fin b) = (a \<le> b)"
  by (simp_all add: plus_jsnum_def minus_jsnum_def times_jsnum_def divide_jsnum_def
      less_jsnum_def less_eq_jsnum_def)

lemma Math_Fin [simp]:
  "Math_max (Fin a) (Fin b) = Fin (max a b)"
  "Math_min (Fin a) (Fin b) = Fin (min a b)"
  by (auto simp: Math_max_def Math_min_def)

lemma js_or_Fin [simp]: "js_or (Fin a) b = (if a = 0 then b else Fin a)"
  by (simp add: js_or_def)

lemma set_Fin [simp]:
  "set_position old (Fin a) = Fin a"
  "set_size old (Fin a) = (if 0 \<le> a then Fin a else old)"
  by (simp_all add: set_position_def set_size_def)

lemma meural_ratio [simp]:
  "getAspectRatio meural Portrait = Inr (Fin (9 / 16))"
  "getAspectRatio meural Landscape = Inr (Fin (16 / 9))"
  by (simp_all add: getAspectRatio_def getDimensions_def meural_def)

lemma meural_dims [simp]:
  "readDims meural Portrait = Inr \<lparr>dwidth = Fin 1080, dheight = Fin 1920\<rparr>"
  "readDims meural Landscape = Inr \<lparr>dwidth = Fin 1920, dheight = Fin 1080\<rparr>"
  by (simp_all add: readDims_def getDimensions_def meural_def)

lemmas engine_defs =
  btnCrop_click_def btnBack_click_def btnSkip_click_def performCrop_def scaledCrop_def
  updateStage_def updateStage_views_def uncaught_def parseFloat_def num_def exec_task_def
  initCropRectangle_def savedCropRect_def defaultCropRect_def zeroCrop_def Let_def

lemmas gesture_defs =
  dispatch_def rectangle_down_def handle_down_def handleMoveResize_def getImageBounds_def
  resizeRect_def resizeFromHandle_def clampLeft_def clampTop_def clampRight_def
  clampBottom_def mouseup_def touchend_def updateCropValues_def js_neq_def uncaught_def
  parseFloat_def num_def Let_def

section \<open>A session, step by step\<close>

lemma enter_portrait:
  "drain 4 (uncaught editor_fresh (updateStage editor_fresh)) =
     Some ([RafInitCrop Portrait, RafShowCropTools, RafShowEditor, OverlayAndHandlers],
           editor)"
  by (simp add: editor_def editor_fresh_def engine_defs eval_nat_numeral)

lemma enter_saved_square:
  "drain 4 (uncaught editor_saved (updateStage editor_saved)) =
     Some ([RafInitCrop Portrait, RafShowCropTools, RafShowEditor, OverlayAndHandlers],
           square_start)"
  by (simp add: editor_def editor_saved_def square_start_def engine_defs eval_nat_numeral)

lemma advance_editor:
  "drain 4 (btnCrop_click editor) =
     Some ([RafInitCrop Landscape, RafShowCropTools, RafShowEditor, OverlayAndHandlers],
           editor_landscape)"
  by (simp add: editor_def editor_landscape_def engine_defs eval_nat_numeral)

lemma back_editor:
  "drain 4 (btnBack_click editor_landscape) =
     Some ([RafInitCrop Portrait, RafShowCropTools, RafShowEditor, OverlayAndHandlers],
           editor_back)"
  by (simp add: editor_def editor_landscape_def editor_back_def engine_defs eval_nat_numeral)

section \<open>The resize solver on finite numbers\<close>







section \<open>The solver: ratio and containment\<close>




section \<open>The solver: the anchor corner\<close>

text \<open>
  Claim C3 fails on the code. The rectangle \<open>edge_start\<close> (left 520, top 100, 90 x 160)
  lies inside the image (bounds 20, 20, 600, 800); its bottom left corner, the anchor
  of the top right handle, is at (520, 260). Pulling the handle 30 pixels to the right
  asks for a width of 120, which crosses the right edge at 620: the code cuts the width
  to 100 and derives the height 1600 / 9 from it, but keeps the top 140 / 3 that it
  computed for the height asked for first. The bottom edge moves from 260 to 2020 / 9.
\<close>

theorem top_right_anchor_moves:
  "getImageBounds edge_start = finb 20 20 600 800
   \<and> Fin 20 \<le> styleLeft edge_start \<and> Fin 20 \<le> styleTop edge_start
   \<and> styleLeft edge_start + styleWidth edge_start \<le> Fin 20 + Fin 600
   \<and> styleTop edge_start + styleHeight edge_start \<le> Fin 20 + Fin 800
   \<and> styleLeft edge_start = Fin 520 \<and> styleTop edge_start + styleHeight edge_start = Fin 260
   \<and> styleLeft edge_pull = Fin 520 \<and> styleTop edge_pull = Fin (140 / 3)
   \<and> styleWidth edge_pull = Fin 100 \<and> styleHeight edge_pull = Fin (1600 / 9)
   \<and> styleTop edge_pull + styleHeight edge_pull = Fin (2020 / 9)"
  by (simp add: editor_def edge_start_def edge_pull_def gesture_defs finb_def)

section \<open>The solver: the floor of 50 pixels\<close>




section \<open>Conversion to the pixels of the original image\<close>

lemma scaledCrop_Fin:
  assumes "dw \<noteq> 0" "dh \<noteq> 0"
  shows "scaledCrop nW nH (Fin dw) (Fin dh) \<lparr>x = Fin cx, y = Fin cy, width = Fin cw, height = Fin ch\<rparr> =
     \<lparr>x = Fin (of_int \<lfloor>cx * (real nW / dw)\<rfloor>),
      y = Fin (of_int \<lfloor>cy * (real nH / dh)\<rfloor>),
      width = Fin (min (of_int \<lfloor>cw * (real nW / dw)\<rfloor>) (real nW - of_int \<lfloor>cx * (real nW / dw)\<rfloor>)),
      height = Fin (min (of_int \<lfloor>ch * (real nH / dh)\<rfloor>) (real nH - of_int \<lfloor>cy * (real nH / dh)\<rfloor>))\<rparr>"
  using assms by (simp add: scaledCrop_def num_def Let_def)

text \<open>
  Claim C2. With a current image, a stored crop of finite numbers and display
  dimensions that are finite and not zero, \<open>performCrop\<close> sends one request whose crop
  has \<open>x\<close> and \<open>width\<close> multiplied by \<open>naturalWidth / displayWidth\<close>, \<open>y\<close> and
  \<open>height\<close> by \<open>naturalHeight / displayHeight\<close>, each floored, and then the width cut
  to \<open>naturalWidth - x\<close> and the height to \<open>naturalHeight - y\<close>; so
  \<open>x + width \<le> naturalWidth\<close> and \<open>y + height \<le> naturalHeight\<close>.
\<close>

theorem performCrop_within_native:
  assumes image: "currentImage w = Some ident"
    and stored: "(if ori = Portrait then portraitCrop w else landscapeCrop w) =
                   \<lparr>x = Fin cx, y = Fin cy, width = Fin cw, height = Fin ch\<rparr>"
    and display: "js_or (parseFloat (imgWidth w)) (num (offsetWidth w)) = Fin dw"
                 "js_or (parseFloat (imgHeight w)) (num (offsetHeight w)) = Fin dh"
                 "dw \<noteq> 0" "dh \<noteq> 0"
  shows "\<exists>sx sy sw sh.
           requests (performCrop ori w) = requests w @
             [\<lparr>req_identifier = ident, req_orientation = ori,
               req_crop = \<lparr>x = Fin sx, y = Fin sy, width = Fin sw, height = Fin sh\<rparr>\<rparr>]
           \<and> sx = of_int \<lfloor>cx * (real (naturalWidth w) / dw)\<rfloor>
           \<and> sy = of_int \<lfloor>cy * (real (naturalHeight w) / dh)\<rfloor>
           \<and> sw = min (of_int \<lfloor>cw * (real (naturalWidth w) / dw)\<rfloor>) (real (naturalWidth w) - sx)
           \<and> sh = min (of_int \<lfloor>ch * (real (naturalHeight w) / dh)\<rfloor>) (real (naturalHeight w) - sy)
           \<and> sx + sw \<le> real (naturalWidth w) \<and> sy + sh \<le> real (naturalHeight w)"
proof -
  have "requests (performCrop ori w) = requests w @
          [\<lparr>req_identifier = ident, req_orientation = ori,
            req_crop = scaledCrop (naturalWidth w) (naturalHeight w) (Fin dw) (Fin dh)
                         \<lparr>x = Fin cx, y = Fin cy, width = Fin cw, height = Fin ch\<rparr>\<rparr>]"
    using image stored display(1,2) by (simp add: performCrop_def Let_def)
  moreover have "a + min b (n - a) \<le> n" for a b n :: real
    by (simp add: min_def)
  ultimately show ?thesis
    unfolding scaledCrop_Fin [OF display(3,4)] by simp
qed

text \<open>
  The theorem at the session \<open>editor\<close>: the portrait crop (75, 0, 450, 800) of the
  display is sent as (375, 0, 2250, 4000).
\<close>

theorem performCrop_within_native_witness:
  "requests (performCrop Portrait editor) =
     [\<lparr>req_identifier = ''photo.jpg'', req_orientation = Portrait,
       req_crop = \<lparr>x = Fin 375, y = Fin 0, width = Fin 2250, height = Fin 4000\<rparr>\<rparr>]
   \<and> (375::real) + 2250 \<le> real (naturalWidth editor)
   \<and> (0::real) + 4000 \<le> real (naturalHeight editor)"
  using performCrop_within_native
    [where w = editor and ori = Portrait and ident = "''photo.jpg''"
       and cx = 75 and cy = 0 and cw = 450 and ch = 800 and dw = 600 and dh = 800]
  by (simp add: editor_def parseFloat_def)

section \<open>Degenerate geometry\<close>

lemma div_zero_nonfinite: "\<not> isFinite (a / Fin 0)"
  by (cases a) (simp_all add: divide_jsnum_def inf_of_sign_def)

lemma mul_nonfinite: "\<not> isFinite b \<Longrightarrow> \<not> isFinite (a * b)"
  by (cases a; cases b) (simp_all add: times_jsnum_def inf_of_sign_def)

lemma floor_nonfinite: "\<not> isFinite a \<Longrightarrow> \<not> isFinite (Math_floor a)"
  by (cases a) simp_all

lemma sub_nonfinite: "\<not> isFinite b \<Longrightarrow> \<not> isFinite (a - b)"
  by (cases a; cases b) (simp_all add: minus_jsnum_def)

lemma min_nonfinite: "\<not> isFinite a \<Longrightarrow> \<not> isFinite b \<Longrightarrow> \<not> isFinite (Math_min a b)"
  by (cases a; cases b) (simp_all add: Math_min_def)

text \<open>
  Claim C7, as amended. The conversion is a total function: a division by zero raises
  nothing. But with a display width of zero the width of the scaled crop is not a
  finite number (it is \<open>NaN\<close>, \<open>Infinity\<close> or \<open>-Infinity\<close>, never 0), whatever the
  crop and the natural size are; and with a display height of zero neither is its height.
\<close>

theorem scaledCrop_degenerate:
  "\<not> isFinite (width (scaledCrop nW nH (Fin 0) dH c))
   \<and> \<not> isFinite (height (scaledCrop nW nH dW (Fin 0) c))"
  by (simp add: scaledCrop_def Let_def min_nonfinite sub_nonfinite floor_nonfinite
      mul_nonfinite div_zero_nonfinite)

text \<open>
  Claim C7 as stated fails: with display width and height zero, the portrait crop of
  \<open>editor\<close> on an image of 3000 x 4000 is converted to
  \<open>{x: Infinity, y: NaN, width: -Infinity, height: NaN}\<close>, not to a rectangle of
  width 0 and height 0.
\<close>

theorem scaledCrop_degenerate_counterexample:
  "scaledCrop 3000 4000 (Fin 0) (Fin 0) \<lparr>x = Fin 75, y = Fin 0, width = Fin 450, height = Fin 800\<rparr>
     = \<lparr>x = PInf, y = NaN, width = NInf, height = NaN\<rparr>
   \<and> NInf \<noteq> Fin 0 \<and> NaN \<noteq> Fin 0"
  by (simp add: scaledCrop_def Let_def num_def divide_jsnum_def times_jsnum_def
      minus_jsnum_def inf_of_sign_def Math_min_def less_jsnum_def)

section \<open>Round trip through the original image's pixels\<close>

lemma floor_back:
  assumes "0 < n" "0 < d"
  shows "of_int \<lfloor>a * (n / d)\<rfloor> * (d / n) \<le> (a::real)"
    and "a - d / n < of_int \<lfloor>a * (n / d)\<rfloor> * (d / n)"
proof -
  let ?q = "a * (n / d)"
  have k: "0 < d / n" using assms by simp
  have e: "?q * (d / n) = a" using assms by simp
  have "of_int \<lfloor>?q\<rfloor> * (d / n) \<le> ?q * (d / n)"
    using k by (intro mult_right_mono) auto
  then show "of_int \<lfloor>a * (n / d)\<rfloor> * (d / n) \<le> a" using e by simp
  have "?q - 1 < of_int \<lfloor>?q\<rfloor>" by linarith
  then have "(?q - 1) * (d / n) < of_int \<lfloor>?q\<rfloor> * (d / n)"
    using k by (intro mult_strict_right_mono) auto
  then show "a - d / n < of_int \<lfloor>a * (n / d)\<rfloor> * (d / n)"
    using e by (simp add: algebra_simps)
qed

lemma scaled_sum_fits:
  assumes "0 < d" "0 < n" "a + b \<le> (d::real)"
  shows "of_int \<lfloor>a * (n / d)\<rfloor> + of_int \<lfloor>b * (n / d)\<rfloor> \<le> n"
proof -
  define q where "q = n / d"
  have q: "0 \<le> q" "d * q = n" using assms by (simp_all add: q_def)
  have "(a + b) * q \<le> d * q" using assms(3) q(1) by (rule mult_right_mono)
  then have "a * q + b * q \<le> n" using q(2) by (simp add: distrib_right)
  moreover have "of_int \<lfloor>a * q\<rfloor> \<le> a * q" "of_int \<lfloor>b * q\<rfloor> \<le> b * q" by simp_all
  ultimately show ?thesis unfolding q_def by linarith
qed

text \<open>
  Claim C5, as amended. For a geometry with positive display and natural dimensions
  and a rectangle inside the display bounds, converting with \<open>scaledCrop\<close> and
  projecting back with the saved-crop branch of \<open>initCropRectangle\<close> gives a
  rectangle whose \<open>x\<close> and width are at most the original ones and less than
  \<open>displayWidth / naturalWidth\<close> below them, and whose \<open>y\<close> and height are at most
  the original ones and less than \<open>displayHeight / naturalHeight\<close> below them: one
  pixel of the original image. So the error is below one display pixel when the image
  is shown no larger than its natural size.
\<close>

theorem roundtrip_error:
  assumes geometry: "0 < dw" "0 < dh" "0 < nW" "0 < nH"
    and inside: "0 \<le> cx" "0 \<le> cy" "cx + cw \<le> dw" "cy + ch \<le> dh"
  shows "\<exists>X Y Wd Ht.
           savedCropRect
             (scaledCrop nW nH (Fin dw) (Fin dh) \<lparr>x = Fin cx, y = Fin cy, width = Fin cw, height = Fin ch\<rparr>)
             (Fin iL) (Fin iT) (Fin dw) (Fin dh) nW nH
           = \<lparr>cropX = Fin X, cropY = Fin Y, cropWidth = Fin Wd, cropHeight = Fin Ht\<rparr>
           \<and> cx - dw / real nW < X - iL \<and> X - iL \<le> cx
           \<and> cy - dh / real nH < Y - iT \<and> Y - iT \<le> cy
           \<and> cw - dw / real nW < Wd \<and> Wd \<le> cw
           \<and> ch - dh / real nH < Ht \<and> Ht \<le> ch
           \<and> (dw \<le> real nW \<longrightarrow> \<bar>(X - iL) - cx\<bar> < 1 \<and> \<bar>Wd - cw\<bar> < 1)
           \<and> (dh \<le> real nH \<longrightarrow> \<bar>(Y - iT) - cy\<bar> < 1 \<and> \<bar>Ht - ch\<bar> < 1)"
proof -
  define kx where "kx = dw / real nW"
  define ky where "ky = dh / real nH"
  define sx where "sx = real_of_int \<lfloor>cx * (real nW / dw)\<rfloor>"
  define sy where "sy = real_of_int \<lfloor>cy * (real nH / dh)\<rfloor>"
  define sw where "sw = real_of_int \<lfloor>cw * (real nW / dw)\<rfloor>"
  define sh where "sh = real_of_int \<lfloor>ch * (real nH / dh)\<rfloor>"
  have n: "0 < real nW" "0 < real nH" using geometry by simp_all
  have bx: "sx * kx \<le> cx" "cx - kx < sx * kx"
    unfolding sx_def kx_def using floor_back [OF n(1) geometry(1)] by simp_all
  have bw: "sw * kx \<le> cw" "cw - kx < sw * kx"
    unfolding sw_def kx_def using floor_back [OF n(1) geometry(1)] by simp_all
  have by': "sy * ky \<le> cy" "cy - ky < sy * ky"
    unfolding sy_def ky_def using floor_back [OF n(2) geometry(2)] by simp_all
  have bh: "sh * ky \<le> ch" "ch - ky < sh * ky"
    unfolding sh_def ky_def using floor_back [OF n(2) geometry(2)] by simp_all
  have fx: "sx + sw \<le> real nW"
    unfolding sx_def sw_def using scaled_sum_fits [OF geometry(1) n(1) inside(3)] .
  have fy: "sy + sh \<le> real nH"
    unfolding sy_def sh_def using scaled_sum_fits [OF geometry(2) n(2) inside(4)] .
  have sc: "scaledCrop nW nH (Fin dw) (Fin dh) \<lparr>x = Fin cx, y = Fin cy, width = Fin cw, height = Fin ch\<rparr>
      = \<lparr>x = Fin sx, y = Fin sy, width = Fin sw, height = Fin sh\<rparr>"
    using geometry(1,2) fx fy
    by (simp add: scaledCrop_Fin sx_def sy_def sw_def sh_def min_def)
  have fit: "sw * kx \<le> dw" "sh * ky \<le> dh" "sx * kx + sw * kx \<le> dw" "sy * ky + sh * ky \<le> dh"
    using bx(1) bw(1) by'(1) bh(1) inside by linarith+
  have sv: "savedCropRect \<lparr>x = Fin sx, y = Fin sy, width = Fin sw, height = Fin sh\<rparr>
          (Fin iL) (Fin iT) (Fin dw) (Fin dh) nW nH
        = \<lparr>cropX = Fin (iL + sx * kx), cropY = Fin (iT + sy * ky),
           cropWidth = Fin (sw * kx), cropHeight = Fin (sh * ky)\<rparr>"
    using n fit by (simp add: savedCropRect_def num_def Let_def kx_def ky_def min_def)
  have kx1: "kx \<le> 1" if "dw \<le> real nW" using that n(1) by (simp add: kx_def)
  have ky1: "ky \<le> 1" if "dh \<le> real nH" using that n(2) by (simp add: ky_def)
  have px: "\<bar>(iL + sx * kx - iL) - cx\<bar> < 1 \<and> \<bar>sw * kx - cw\<bar> < 1" if "dw \<le> real nW"
    using kx1 [OF that] bx bw by linarith
  have py: "\<bar>(iT + sy * ky - iT) - cy\<bar> < 1 \<and> \<bar>sh * ky - ch\<bar> < 1" if "dh \<le> real nH"
    using ky1 [OF that] by' bh by linarith
  have bounds: "cx - kx < iL + sx * kx - iL" "iL + sx * kx - iL \<le> cx"
    "cy - ky < iT + sy * ky - iT" "iT + sy * ky - iT \<le> cy"
    using bx by' by simp_all
  show ?thesis
    unfolding sc sv
    apply (intro exI conjI)
              apply (rule refl)
    using bounds bw bh px py unfolding kx_def ky_def by blast+
qed

text \<open>
  The theorem at the geometry of \<open>editor\<close> (3000 x 4000 shown at 600 x 800) and its
  portrait crop.
\<close>

theorem roundtrip_error_witness:
  "\<exists>X Y Wd Ht.
     savedCropRect
       (scaledCrop 3000 4000 (Fin 600) (Fin 800) \<lparr>x = Fin 75, y = Fin 0, width = Fin 450, height = Fin 800\<rparr>)
       (Fin 20) (Fin 20) (Fin 600) (Fin 800) 3000 4000
     = \<lparr>cropX = Fin X, cropY = Fin Y, cropWidth = Fin Wd, cropHeight = Fin Ht\<rparr>
     \<and> \<bar>(X - 20) - 75\<bar> < 1 \<and> \<bar>Wd - 450\<bar> < 1 \<and> \<bar>(Y - 20) - 0\<bar> < 1 \<and> \<bar>Ht - 800\<bar> < 1"
  using roundtrip_error [of 600 800 3000 4000 75 0 450 800 20 20]
  by simp blast

text \<open>
  Claim C5 as stated fails when the image is shown larger than it is: an image of
  100 x 100 shown at 600 x 600 (a pixel of the image is six pixels of the display),
  and the rectangle (5, 5, 590, 590) inside the display bounds. It comes back as
  (0, 0, 588, 588): \<open>x\<close> is off by 5 and the width by 2.
\<close>

theorem roundtrip_counterexample:
  "savedCropRect
     (scaledCrop 100 100 (Fin 600) (Fin 600) \<lparr>x = Fin 5, y = Fin 5, width = Fin 590, height = Fin 590\<rparr>)
     (Fin 0) (Fin 0) (Fin 600) (Fin 600) 100 100
   = \<lparr>cropX = Fin 0, cropY = Fin 0, cropWidth = Fin 588, cropHeight = Fin 588\<rparr>
   \<and> \<not> \<bar>(0 - 0) - (5::real)\<bar> \<le> 1 \<and> \<not> \<bar>588 - (590::real)\<bar> \<le> 1"
  by (simp add: savedCropRect_def scaledCrop_def num_def Let_def)

section \<open>The stage machine\<close>

text \<open>
  Claim C4 fails on the code. In the session \<open>editor\<close>, which is how
  \<open>updateStage\<close> and its callbacks set up the Portrait stage of a fresh image
  (lemma \<open>enter_portrait\<close>), the portrait rectangle on display is
  (95, 20, 450, 800), and \<open>portraitCrop\<close> holds it relative to the image, in display
  pixels: (75, 0, 450, 800). The Crop button sends the crop, converted, and
  moves on to Landscape; \<open>portraitCrop\<close> is kept as it is. The Back button returns to
  Portrait, where \<open>initCropRectangle\<close> finds a saved crop and scales it by display
  size over natural size, 1 / 5, as if it were in pixels of the original image: the
  rectangle on display becomes (35, 20, 90, 160), neither the one that was left nor
  the centred default.
\<close>

theorem advance_back_shrinks_portrait:
  "currentStage editor = 1
   \<and> styleLeft editor = Fin 95 \<and> styleTop editor = Fin 20
   \<and> styleWidth editor = Fin 450 \<and> styleHeight editor = Fin 800
   \<and> drain 4 (btnCrop_click editor) =
       Some ([RafInitCrop Landscape, RafShowCropTools, RafShowEditor, OverlayAndHandlers],
             editor_landscape)
   \<and> drain 4 (btnBack_click editor_landscape) =
       Some ([RafInitCrop Portrait, RafShowCropTools, RafShowEditor, OverlayAndHandlers],
             editor_back)
   \<and> currentStage editor_back = 1
   \<and> styleLeft editor_back = Fin 35 \<and> styleTop editor_back = Fin 20
   \<and> styleWidth editor_back = Fin 90 \<and> styleHeight editor_back = Fin 160"
  by (simp add: advance_editor back_editor)
     (simp add: editor_def editor_landscape_def editor_back_def)

lemma getAspectRatio_readDims:
  "readDims c ori = Inr ds \<Longrightarrow> getAspectRatio c ori = Inr (dwidth ds / dheight ds)"
  by (auto simp: readDims_def getAspectRatio_def split: sum.splits option.splits)

text \<open>
  Claim C8. The application is initialised and not syncing, the configuration has the
  dimensions of both orientations, the image is loaded and no callback is waiting.
  Then \<open>updateStage\<close> in the Review stage with no crop for either orientation sets
  the stage to Portrait and hands over one callback, the call of \<open>updateStage\<close>
  again. Running the callbacks from there comes to an end within five steps, with
  \<open>updateStage\<close> having run exactly once among them, the stage still Portrait and no
  callback left.
\<close>

theorem review_redirects_once:
  assumes ready: "app_initialized w" "\<not> syncing w" "tasks w = []"
    and config: "readDims (cfg w) Portrait = Inr dp" "readDims (cfg w) Landscape = Inr dl"
    and loaded: "complete w" "naturalWidth w \<noteq> 0"
    and review: "currentStage w = 3"
    and zero: "\<not> Fin 0 < width (portraitCrop w)" "\<not> Fin 0 < width (landscapeCrop w)"
  shows "\<exists>tr wf. updateStage w = Inr (w\<lparr>currentStage := 1, tasks := [RafUpdateStage]\<rparr>)
           \<and> drain 5 (w\<lparr>currentStage := 1, tasks := [RafUpdateStage]\<rparr>) = Some (tr, wf)
           \<and> count_list tr RafUpdateStage = 1
           \<and> currentStage wf = 1 \<and> tasks wf = []"
proof -
  have u: "updateStage w = Inr (w\<lparr>currentStage := 1, tasks := [RafUpdateStage]\<rparr>)"
    using assms by (simp add: updateStage_def Let_def)
  have r: "getAspectRatio (cfg w) Portrait = Inr (dwidth dp / dheight dp)"
    using config(1) by (rule getAspectRatio_readDims)
  show ?thesis
    using assms r unfolding u
    by (cases "currentImage w")
       (simp_all add: eval_nat_numeral exec_task_def uncaught_def updateStage_def
          updateStage_views_def initCropRectangle_def Let_def)
qed

text \<open>
  The theorem at the session \<open>editor_review\<close>, whose two crops have width 0.
\<close>

theorem review_redirects_once_witness:
  "width (portraitCrop editor_review) = Fin 0 \<and> width (landscapeCrop editor_review) = Fin 0
   \<and> currentStage editor_review = 3
   \<and> (\<exists>tr wf.
        updateStage editor_review = Inr (editor_review\<lparr>currentStage := 1, tasks := [RafUpdateStage]\<rparr>)
        \<and> drain 5 (editor_review\<lparr>currentStage := 1, tasks := [RafUpdateStage]\<rparr>) = Some (tr, wf)
        \<and> count_list tr RafUpdateStage = 1
        \<and> currentStage wf = 1 \<and> tasks wf = [])"
  using review_redirects_once
    [where w = editor_review and dp = "\<lparr>dwidth = Fin 1080, dheight = Fin 1920\<rparr>"
       and dl = "\<lparr>dwidth = Fin 1920, dheight = Fin 1080\<rparr>"]
  by (simp add: editor_review_def editor_def zeroCrop_def)

section \<open>One gesture at a time\<close>

lemma updateCropValues_flags [simp]:
  "isDragging (updateCropValues w) = isDragging w"
  "isResizing (updateCropValues w) = isResizing w"
  by (simp_all add: updateCropValues_def Let_def)

lemma handleMoveResize_flags:
  "handleMoveResize cx cy w = Inr w' \<Longrightarrow>
     isDragging w' = isDragging w \<and> isResizing w' = isResizing w"
  by (auto simp: handleMoveResize_def Let_def split: if_splits option.splits sum.splits)

lemma uncaught_handleMoveResize_flags [simp]:
  "isDragging (uncaught w (handleMoveResize cx cy w)) = isDragging w"
  "isResizing (uncaught w (handleMoveResize cx cy w)) = isResizing w"
  by (auto simp: uncaught_def dest: handleMoveResize_flags split: sum.splits)

lemma dispatch_isDragging:
  "isDragging (dispatch_all es w) = rectangle_pressed (isDragging w) es"
proof (induction es arbitrary: w)
  case Nil
  show ?case by simp
next
  case (Cons e es)
  show ?case
    by (cases e)
       (simp_all add: Cons.IH dispatch_def rectangle_down_def handle_down_def mouseup_def
          touchend_def Let_def)
qed

lemma dispatch_isResizing:
  "isResizing (dispatch_all es w) = handle_pressed (isResizing w) es"
proof (induction es arbitrary: w)
  case Nil
  show ?case by simp
next
  case (Cons e es)
  show ?case
    by (cases e)
       (simp_all add: Cons.IH dispatch_def rectangle_down_def handle_down_def mouseup_def
          touchend_def Let_def)
qed

text \<open>
  Claim C9, as amended. The handlers that start a gesture do not look at the flag of
  the other gesture, so a start is not ignored while a gesture is in progress. What
  holds: from a state with neither flag set, after any sequence of events the flag of
  a move is set exactly when the rectangle has been pressed since the last release,
  and the flag of a resize exactly when a handle has. So both flags are set exactly
  when a press on the rectangle and a press on a handle have both come with no
  release after them; every other sequence, a second start of the same kind among
  them, leaves at most one flag set.
\<close>

theorem flags_follow_presses:
  assumes "\<not> isDragging w" "\<not> isResizing w"
  shows "isDragging (dispatch_all es w) = rectangle_pressed False es
         \<and> isResizing (dispatch_all es w) = handle_pressed False es
         \<and> ((isDragging (dispatch_all es w) \<and> isResizing (dispatch_all es w))
              = (rectangle_pressed False es \<and> handle_pressed False es))"
  using assms by (simp add: dispatch_isDragging dispatch_isResizing)

text \<open>
  The theorem at the session \<open>editor\<close>, for a move ended by its release and then
  presses on two handles: a resize is in progress, and no move.
\<close>

theorem flags_follow_presses_witness:
  "\<not> isDragging editor \<and> \<not> isResizing editor
   \<and> \<not> rectangle_pressed False move_then_resize \<and> handle_pressed False move_then_resize
   \<and> \<not> isDragging (dispatch_all move_then_resize editor)
   \<and> isResizing (dispatch_all move_then_resize editor)"
  using flags_follow_presses [of editor move_then_resize]
  by (simp add: editor_def move_then_resize_def)

text \<open>
  Claim C9 as stated fails: from the idle session \<open>editor\<close>, a press on the rectangle
  followed by a press on a handle, with no release between them, sets both flags.
\<close>

theorem two_gestures_counterexample:
  "\<not> isDragging editor \<and> \<not> isResizing editor
   \<and> isDragging two_starts \<and> isResizing two_starts"
  by (simp add: editor_def two_starts_def gesture_defs)

section \<open>The aspect ratio of an orientation\<close>

text \<open>
  Claim C10. With the configuration initialised and holding the dimensions \<open>ds\<close> of
  the orientation, \<open>getAspectRatio\<close> returns \<open>ds.width / ds.height\<close>, for portrait
  and for landscape alike.
\<close>

theorem getAspectRatio_width_over_height:
  assumes "initialized c" "dimensions c = Some m" "m ori = Some ds"
  shows "getAspectRatio c ori = Inr (dwidth ds / dheight ds)"
  using assms by (simp add: getAspectRatio_def getDimensions_def)

text \<open>
  The theorem at the configuration \<open>meural\<close>: 1080 / 1920 = 0.5625 for portrait and
  1920 / 1080 = 16 / 9 for landscape.
\<close>

theorem getAspectRatio_width_over_height_witness:
  "initialized meural
   \<and> getAspectRatio meural Portrait = Inr (Fin 0.5625)
   \<and> getAspectRatio meural Landscape = Inr (Fin (16 / 9))"
  using getAspectRatio_width_over_height
      [of meural "\<lambda>ori. Some (case ori of
          Portrait \<Rightarrow> \<lparr>dwidth = Fin 1080, dheight = Fin 1920\<rparr>
        | Landscape \<Rightarrow> \<lparr>dwidth = Fin 1920, dheight = Fin 1080\<rparr>)" Portrait
        "\<lparr>dwidth = Fin 1080, dheight = Fin 1920\<rparr>"]
    getAspectRatio_width_over_height
      [of meural "\<lambda>ori. Some (case ori of
          Portrait \<Rightarrow> \<lparr>dwidth = Fin 1080, dheight = Fin 1920\<rparr>
        | Landscape \<Rightarrow> \<lparr>dwidth = Fin 1920, dheight = Fin 1080\<rparr>)" Landscape
        "\<lparr>dwidth = Fin 1920, dheight = Fin 1080\<rparr>"]
  by (simp add: meural_def)

end
